theory Spec2Isabelle
  imports Complex_Main "HOL-Library.Log_Nat"
begin

section \<open>Numbers of the program\<close>

text \<open>
  The program computes with Python numbers: the sliders return \<open>int\<close>, the number inputs
  with a float minimum return \<open>float\<close>, and the percentile fields of a table row are
  \<open>Optional[float]\<close>. A float is an IEEE 754 double: a finite value, one of the two
  infinities, or NaN. A finite float is represented by its exact value, a real number.
  Comparison is as Python defines it, for special values too: every comparison with NaN
  is false, and an \<open>int\<close> is compared with a \<open>float\<close> by value. The sign of a zero is
  not represented: no operation of the program tells the two zeros apart.
\<close>

datatype pyfloat = Finite real | PosInf | NegInf | NaN

datatype pynum = PyInt int | PyFloat pyfloat

datatype py_error = ZeroDivisionError

fun float_lt :: "pyfloat \<Rightarrow> pyfloat \<Rightarrow> bool" where
  "float_lt NaN _ = False"
| "float_lt _ NaN = False"
| "float_lt (Finite a) (Finite b) = (a < b)"
| "float_lt (Finite _) PosInf = True"
| "float_lt (Finite _) NegInf = False"
| "float_lt PosInf _ = False"
| "float_lt NegInf NegInf = False"
| "float_lt NegInf _ = True"

fun float_le :: "pyfloat \<Rightarrow> pyfloat \<Rightarrow> bool" where
  "float_le NaN _ = False"
| "float_le _ NaN = False"
| "float_le (Finite a) (Finite b) = (a \<le> b)"
| "float_le (Finite _) PosInf = True"
| "float_le (Finite _) NegInf = False"
| "float_le PosInf PosInf = True"
| "float_le PosInf _ = False"
| "float_le NegInf _ = True"

text \<open>\<open>v < t\<close> for a number \<open>v\<close> (an int or a float) and a float \<open>t\<close>.\<close>

fun num_lt :: "pynum \<Rightarrow> pyfloat \<Rightarrow> bool" where
  "num_lt (PyInt i) t = float_lt (Finite (of_int i)) t"
| "num_lt (PyFloat x) t = float_lt x t"

fun is_finite :: "pynum \<Rightarrow> bool" where
  "is_finite (PyInt _) = True"
| "is_finite (PyFloat (Finite _)) = True"
| "is_finite (PyFloat _) = False"

subsection \<open>Rounding to a double\<close>

text \<open>
  Every arithmetic operation on floats returns the exact result rounded to the nearest
  double, ties to the even significand. A double has 53 significant bits; its exponent
  is at least -1022, below which the spacing of the doubles stays 2 ^ -1074; and a
  result that rounds to 2 ^ 1024 or beyond in magnitude is an infinity.
\<close>

definition pow2 :: "int \<Rightarrow> real" where
  "pow2 e = (if 0 \<le> e then 2 ^ nat e else 1 / 2 ^ nat (- e))"

text \<open>The exponent \<open>e\<close> with \<open>2 ^ e \<le> \<bar>x\<bar> < 2 ^ (e + 1)\<close>, for \<open>x\<close> other than 0.\<close>

definition binade :: "real \<Rightarrow> int" where
  "binade x = (if 1 \<le> \<bar>x\<bar> then bitlen \<lfloor>\<bar>x\<bar>\<rfloor> - 1 else - bitlen (\<lceil>1 / \<bar>x\<bar>\<rceil> - 1))"

definition round_half_even :: "real \<Rightarrow> int" where
  "round_half_even y =
    (let n = \<lfloor>y\<rfloor>; d = y - of_int n
     in if d < 1 / 2 then n else if 1 / 2 < d then n + 1 else if even n then n else n + 1)"

definition round_double :: "real \<Rightarrow> pyfloat" where
  "round_double x =
    (if x = 0 then Finite 0
     else
       (let e = max (binade x) (- 1022);
            ulp = pow2 (e - 52);
            r = of_int (round_half_even (x / ulp)) * ulp
        in if 2 ^ 1024 \<le> \<bar>r\<bar> then (if 0 < x then PosInf else NegInf) else Finite r))"

text \<open>A real number is a double when rounding leaves it as it is.\<close>

definition is_double :: "real \<Rightarrow> bool" where
  "is_double x = (round_double x = Finite x)"

subsection \<open>Arithmetic on floats\<close>

fun float_add :: "pyfloat \<Rightarrow> pyfloat \<Rightarrow> pyfloat" where
  "float_add NaN _ = NaN"
| "float_add _ NaN = NaN"
| "float_add (Finite a) (Finite b) = round_double (a + b)"
| "float_add PosInf NegInf = NaN"
| "float_add NegInf PosInf = NaN"
| "float_add PosInf _ = PosInf"
| "float_add _ PosInf = PosInf"
| "float_add NegInf _ = NegInf"
| "float_add _ NegInf = NegInf"

fun float_mul :: "pyfloat \<Rightarrow> pyfloat \<Rightarrow> pyfloat" where
  "float_mul NaN _ = NaN"
| "float_mul _ NaN = NaN"
| "float_mul (Finite a) (Finite b) = round_double (a * b)"
| "float_mul (Finite a) PosInf = (if a = 0 then NaN else if 0 < a then PosInf else NegInf)"
| "float_mul (Finite a) NegInf = (if a = 0 then NaN else if 0 < a then NegInf else PosInf)"
| "float_mul PosInf (Finite b) = (if b = 0 then NaN else if 0 < b then PosInf else NegInf)"
| "float_mul NegInf (Finite b) = (if b = 0 then NaN else if 0 < b then NegInf else PosInf)"
| "float_mul PosInf PosInf = PosInf"
| "float_mul PosInf NegInf = NegInf"
| "float_mul NegInf PosInf = NegInf"
| "float_mul NegInf NegInf = PosInf"

text \<open>The quotient of two floats, for a divisor other than zero.\<close>

fun float_div :: "pyfloat \<Rightarrow> pyfloat \<Rightarrow> pyfloat" where
  "float_div NaN _ = NaN"
| "float_div _ NaN = NaN"
| "float_div (Finite a) (Finite b) = round_double (a / b)"
| "float_div (Finite a) _ = Finite 0"
| "float_div PosInf (Finite b) = (if 0 < b then PosInf else NegInf)"
| "float_div NegInf (Finite b) = (if 0 < b then NegInf else PosInf)"
| "float_div _ _ = NaN"

text \<open>
  An \<open>int\<close> operand of a float operation is converted to the nearest double first. The
  ints of the program come from sliders and integer number inputs and are below 2 ^ 53
  in magnitude, where the conversion is exact. Python raises \<open>OverflowError\<close> for an
  int beyond the range of the doubles, which no widget delivers; here such an int
  converts to an infinity.
\<close>

definition int_to_float :: "int \<Rightarrow> pyfloat" where
  "int_to_float i = round_double (of_int i)"

section \<open>Benchmark reference data\<close>

datatype Specialty = SURGERY_TRAUMA

datatype Metric =
    TOTAL_COMPENSATION
  | TOTAL_HOURS
  | TOTAL_RVUS
  | COMPERSATION_PER_HOUR
  | COMPERSATION_PER_RVU

text \<open>
  \<open>class TableRow(BaseModel)\<close>: every optional field defaults to \<open>None\<close>, and an integer
  given for a float field is stored as that float. A decimal literal such as \<open>34.78\<close>
  denotes the double nearest to it.
\<close>

record TableRow =
  specialty :: Specialty
  practice_type :: string
  metric :: Metric
  groups :: "int option"
  providers :: "int option"
  mean :: "pyfloat option"
  std_dev :: "pyfloat option"
  p25 :: "pyfloat option"
  p50 :: "pyfloat option"
  p75 :: "pyfloat option"
  p90 :: "pyfloat option"

definition STATS_TABLE :: "TableRow list" where
  "STATS_TABLE =
    [ \<lparr> specialty = SURGERY_TRAUMA, practice_type = ''All'', metric = TOTAL_COMPENSATION,
        groups = Some 76, providers = Some 262,
        mean = Some (Finite 485989), std_dev = Some (Finite 160927),
        p25 = Some (Finite 405815), p50 = Some (Finite 473355),
        p75 = Some (Finite 550500), p90 = Some (Finite 662930) \<rparr>,
      \<lparr> specialty = SURGERY_TRAUMA, practice_type = ''All'', metric = TOTAL_RVUS,
        groups = None, providers = Some 55,
        mean = None, std_dev = None,
        p25 = Some (Finite 6270), p50 = Some (Finite 11107),
        p75 = Some (Finite 14285), p90 = None \<rparr>,
      \<lparr> specialty = SURGERY_TRAUMA, practice_type = ''All'', metric = COMPERSATION_PER_RVU,
        groups = None, providers = Some 47,
        mean = None, std_dev = None,
        p25 = Some (round_double (3478 / 100)), p50 = Some (round_double (4745 / 100)),
        p75 = Some (round_double (6467 / 100)), p90 = None \<rparr> ]"

section \<open>Percentile classifier\<close>

text \<open>The test \<open>t is not None and comp < t\<close> of each rung.\<close>

fun present_and_lt :: "pyfloat option \<Rightarrow> pynum \<Rightarrow> bool" where
  "present_and_lt None v = False"
| "present_and_lt (Some t) v = num_lt v t"

definition get_percentile_for_comp :: "TableRow \<Rightarrow> pynum \<Rightarrow> string \<times> string" where
  "get_percentile_for_comp stats comp' =
    (if present_and_lt (p25 stats) comp' then (''below 25th percentile'', ''orange'')
     else if present_and_lt (p50 stats) comp' then (''between 25th and 50th percentile'', ''green'')
     else if present_and_lt (p75 stats) comp' then (''between 50th and 75th percentile'', ''yellow'')
     else if present_and_lt (p90 stats) comp' then (''between 75th and 90th percentile'', ''red'')
     else (''above 90th percentile'', ''red''))"

text \<open>
  The ladder as the specification words it: an ordered list of rungs, each an optional
  threshold with the result it gives; an absent threshold is skipped, the first rung
  whose threshold is strictly above the value wins, and the last result is the default.
  The specification names a severity where the program names a colour.
\<close>

datatype severity = LowSeverity | NormalSeverity | ElevatedSeverity | HighSeverity

fun severity_color :: "severity \<Rightarrow> string" where
  "severity_color LowSeverity = ''orange''"
| "severity_color NormalSeverity = ''green''"
| "severity_color ElevatedSeverity = ''yellow''"
| "severity_color HighSeverity = ''red''"

fun ladder ::
  "(pyfloat option \<times> string \<times> severity) list \<Rightarrow> string \<times> severity \<Rightarrow> pynum \<Rightarrow> string \<times> severity"
where
  "ladder [] dflt v = dflt"
| "ladder ((None, res) # rungs) dflt v = ladder rungs dflt v"
| "ladder ((Some t, res) # rungs) dflt v = (if num_lt v t then res else ladder rungs dflt v)"

definition classify_spec :: "TableRow \<Rightarrow> pynum \<Rightarrow> string \<times> severity" where
  "classify_spec row v =
    ladder
      [ (p25 row, ''below 25th percentile'', LowSeverity),
        (p50 row, ''between 25th and 50th percentile'', NormalSeverity),
        (p75 row, ''between 50th and 75th percentile'', ElevatedSeverity),
        (p90 row, ''between 75th and 90th percentile'', HighSeverity) ]
      (''above 90th percentile'', HighSeverity) v"

text \<open>The ordering invariant of a row: of two percentiles that are both present, the
  lower-numbered one is at most the higher-numbered one.\<close>

fun le_when_present :: "pyfloat option \<Rightarrow> pyfloat option \<Rightarrow> bool" where
  "le_when_present (Some a) (Some b) = float_le a b"
| "le_when_present _ _ = True"

definition percentiles_ordered :: "TableRow \<Rightarrow> bool" where
  "percentiles_ordered row =
    (le_when_present (p25 row) (p50 row) \<and> le_when_present (p25 row) (p75 row)
     \<and> le_when_present (p25 row) (p90 row) \<and> le_when_present (p50 row) (p75 row)
     \<and> le_when_present (p50 row) (p90 row) \<and> le_when_present (p75 row) (p90 row))"

section \<open>Compensation model\<close>

datatype PaymentTemplate = BY_RVUS | HOURLY

record TemplateForm =
  template :: PaymentTemplate

text \<open>
  The number inputs of the hourly form have a float minimum and return floats; the two
  sliders have integer bounds and return ints. A float field holds the value of a finite
  double.
\<close>

record HourlyTemplateForm = TemplateForm +
  onsite_rate :: real
  call_rate :: real
  other_compensation :: real
  onsite_hours :: int
  call_hours :: int

text \<open>
  In the RVU form the threshold input has an integer minimum and returns an int, as the
  slider does; the other inputs return floats.
\<close>

record RVUTemplateForm = TemplateForm +
  base_comp :: real
  rvu_threshold :: int
  rvu_rate :: real
  other_compensation :: real
  total_rvus :: int

text \<open>
  \<open>a / b\<close> for a float \<open>a\<close> and an int \<open>b\<close>: Python converts \<open>b\<close> to a float and raises
  \<open>ZeroDivisionError\<close> when it is zero, for a float numerator too. The conversion of an
  int is zero only for the int 0.
\<close>

definition truediv :: "pyfloat \<Rightarrow> int \<Rightarrow> py_error + pyfloat" where
  "truediv a b = (if b = 0 then Inl ZeroDivisionError else Inr (float_div a (int_to_float b)))"

definition Hourly_compute_compensation :: "HourlyTemplateForm \<Rightarrow> pyfloat" where
  "Hourly_compute_compensation self =
    float_add
      (float_add
        (float_mul (Finite (onsite_rate self)) (int_to_float (onsite_hours self)))
        (float_mul (Finite (call_rate self)) (int_to_float (call_hours self))))
      (Finite (HourlyTemplateForm.other_compensation self))"

definition Hourly_compute_total_hours :: "HourlyTemplateForm \<Rightarrow> int" where
  "Hourly_compute_total_hours self = onsite_hours self + call_hours self"

definition Hourly_compute_metric :: "HourlyTemplateForm \<Rightarrow> Metric \<Rightarrow> py_error + pynum option" where
  "Hourly_compute_metric self m =
    (if m = TOTAL_COMPENSATION then Inr (Some (PyFloat (Hourly_compute_compensation self)))
     else if m = TOTAL_HOURS then Inr (Some (PyInt (Hourly_compute_total_hours self)))
     else if m = COMPERSATION_PER_HOUR then
       (case truediv (Hourly_compute_compensation self) (Hourly_compute_total_hours self) of
          Inl e \<Rightarrow> Inl e
        | Inr q \<Rightarrow> Inr (Some (PyFloat q)))
     else Inr None)"

definition RVU_compute_compensation :: "RVUTemplateForm \<Rightarrow> pyfloat" where
  "RVU_compute_compensation self =
    (let total_rvus_compensation =
       (if total_rvus self \<le> rvu_threshold self then Finite (base_comp self)
        else (let additional_rvus = total_rvus self - rvu_threshold self
              in float_add (Finite (base_comp self))
                   (float_mul (int_to_float additional_rvus) (Finite (rvu_rate self)))))
     in float_add total_rvus_compensation (Finite (RVUTemplateForm.other_compensation self)))"

definition RVU_compute_total_rvus :: "RVUTemplateForm \<Rightarrow> int" where
  "RVU_compute_total_rvus self = total_rvus self"

definition RVU_compute_metric :: "RVUTemplateForm \<Rightarrow> Metric \<Rightarrow> py_error + pynum option" where
  "RVU_compute_metric self m =
    (if m = TOTAL_COMPENSATION then Inr (Some (PyFloat (RVU_compute_compensation self)))
     else if m = TOTAL_RVUS then Inr (Some (PyInt (RVU_compute_total_rvus self)))
     else if m = COMPERSATION_PER_RVU then
       (case truediv (RVU_compute_compensation self) (RVU_compute_total_rvus self) of
          Inl e \<Rightarrow> Inl e
        | Inr q \<Rightarrow> Inr (Some (PyFloat q)))
     else Inr None)"

text \<open>The two subclasses of \<open>TemplateForm\<close>, and the method call dispatched on them.\<close>

datatype template_form = HourlyForm HourlyTemplateForm | RVUForm RVUTemplateForm

fun compute_metric :: "template_form \<Rightarrow> Metric \<Rightarrow> py_error + pynum option" where
  "compute_metric (HourlyForm self) m = Hourly_compute_metric self m"
| "compute_metric (RVUForm self) m = RVU_compute_metric self m"

section \<open>The display loop\<close>

text \<open>
  The loop of \<open>main\<close> over the rows of the selected specialty. A row whose metric the
  form does not produce is skipped; for any other row the metric is classified and a
  line is rendered, represented here by the metric kind, its value, the bucket label
  and the colour. An exception raised by \<open>compute_metric\<close> is not caught: the loop ends
  there, after the lines rendered before it.
\<close>

type_synonym rendered = "Metric \<times> pynum \<times> string \<times> string"

fun main_rows :: "template_form \<Rightarrow> TableRow list \<Rightarrow> rendered list \<times> py_error option" where
  "main_rows form [] = ([], None)"
| "main_rows form (row # rows) =
    (case compute_metric form (metric row) of
       Inl e \<Rightarrow> ([], Some e)
     | Inr None \<Rightarrow> main_rows form rows
     | Inr (Some m) \<Rightarrow>
         (case get_percentile_for_comp row m of
            (percentile_str, color) \<Rightarrow>
              (case main_rows form rows of
                 (out, err) \<Rightarrow> ((metric row, m, percentile_str, color) # out, err))))"

definition main :: "template_form \<Rightarrow> Specialty \<Rightarrow> rendered list \<times> py_error option" where
  "main form sp = main_rows form (filter (\<lambda>row. specialty row = sp) STATS_TABLE)"

text \<open>A computed value agrees with a two-decimal figure when it rounds to it.\<close>

definition approx_2dp :: "real \<Rightarrow> real \<Rightarrow> bool" where
  "approx_2dp x y = (\<bar>x - y\<bar> \<le> 5 / 1000)"

text \<open>The hourly scenario of the specification: the default values of the form.\<close>

definition hourly_scenario :: HourlyTemplateForm where
  "hourly_scenario =
    \<lparr> template = HOURLY, onsite_rate = 200, call_rate = 50, other_compensation = 0,
      onsite_hours = 2080, call_hours = 500 \<rparr>"

text \<open>The productivity scenario of the specification: the default values of the form.\<close>

definition rvu_scenario :: RVUTemplateForm where
  "rvu_scenario =
    \<lparr> template = BY_RVUS, base_comp = 300000, rvu_threshold = 5000, rvu_rate = 50,
      other_compensation = 0, total_rvus = 7000 \<rparr>"

text \<open>
  Inputs on which a rounding shows: an hourly form with the rate 0.1 for 3 hours, and an
  RVU form at its threshold with the base 0.1 and the other compensation 0.2. The
  doubles nearest to 0.1 and 0.2 are 3602879701896397 / 2 ^ 55 and
  3602879701896397 / 2 ^ 54.
\<close>

definition hourly_tenth :: HourlyTemplateForm where
  "hourly_tenth =
    \<lparr> template = HOURLY, onsite_rate = 3602879701896397 / 2 ^ 55, call_rate = 0,
      other_compensation = 0, onsite_hours = 3, call_hours = 0 \<rparr>"

definition rvu_tenth :: RVUTemplateForm where
  "rvu_tenth =
    \<lparr> template = BY_RVUS, base_comp = 3602879701896397 / 2 ^ 55, rvu_threshold = 5000,
      rvu_rate = 50, other_compensation = 3602879701896397 / 2 ^ 54, total_rvus = 5000 \<rparr>"

section \<open>Facts about the comparisons\<close>

lemma float_lt_PosInf: "float_lt PosInf t = False"
  by (cases t) simp_all

lemma present_and_lt_NaN: "present_and_lt p (PyFloat NaN) = False"
  by (cases p) simp_all

lemma present_and_lt_PosInf: "present_and_lt p (PyFloat PosInf) = False"
  by (cases p) (simp_all add: float_lt_PosInf)

section \<open>Facts about rounding\<close>

text \<open>
  \<open>binade\<close> is the binary exponent of its argument, and a rounding that is finite lies
  within half a unit in the last place of the exact value.
\<close>

lemma binade_large:
  assumes "1 \<le> \<bar>x\<bar>"
  shows "pow2 (binade x) \<le> \<bar>x\<bar> \<and> \<bar>x\<bar> < pow2 (binade x + 1)"
proof -
  define n where "n = \<lfloor>\<bar>x\<bar>\<rfloor>"
  have n0: "0 < n"
    using assms by (simp add: n_def)
  have b: "2 ^ nat (bitlen n - 1) \<le> n" "n < 2 ^ nat (bitlen n)"
    using bitlen_bounds [OF n0] by simp_all
  have bl: "1 \<le> bitlen n"
    using n0 by (simp add: bitlen_alt_def)
  have e: "binade x = bitlen n - 1"
    using assms by (simp add: binade_def n_def)
  have "(2::real) ^ nat (bitlen n - 1) \<le> of_int n"
    using b(1) by simp
  moreover have "real_of_int n \<le> \<bar>x\<bar>"
    by (simp add: n_def)
  ultimately have "2 ^ nat (bitlen n - 1) \<le> \<bar>x\<bar>"
    by linarith
  then have lo: "pow2 (binade x) \<le> \<bar>x\<bar>"
    using bl by (simp add: e pow2_def)
  have "n + 1 \<le> 2 ^ nat (bitlen n)"
    using b(2) by simp
  then have "real_of_int n + 1 \<le> 2 ^ nat (bitlen n)"
    using of_int_le_iff [where 'a = real, of "n + 1" "2 ^ nat (bitlen n)"] by simp
  moreover have "\<bar>x\<bar> < real_of_int n + 1"
    unfolding n_def by linarith
  ultimately have "\<bar>x\<bar> < 2 ^ nat (bitlen n)"
    by linarith
  then have hi: "\<bar>x\<bar> < pow2 (binade x + 1)"
    using bl by (simp add: e pow2_def)
  from lo hi show ?thesis ..
qed

lemma binade_small:
  assumes "x \<noteq> 0" "\<bar>x\<bar> < 1"
  shows "pow2 (binade x) \<le> \<bar>x\<bar> \<and> \<bar>x\<bar> < pow2 (binade x + 1)"
proof -
  define y where "y = 1 / \<bar>x\<bar>"
  define m where "m = \<lceil>y\<rceil> - 1"
  have x0: "0 < \<bar>x\<bar>"
    using assms by simp
  have y1: "1 < y"
    using assms x0 by (simp add: y_def)
  have m0: "0 < m"
    using y1 by (simp add: m_def less_ceiling_iff)
  have my: "real_of_int m < y" "y \<le> real_of_int m + 1"
    unfolding m_def by linarith+
  have b: "2 ^ nat (bitlen m - 1) \<le> m" "m < 2 ^ nat (bitlen m)"
    using bitlen_bounds [OF m0] by simp_all
  have bl: "1 \<le> bitlen m"
    using m0 by (simp add: bitlen_alt_def)
  have e: "binade x = - bitlen m"
    using assms by (simp add: binade_def m_def y_def)
  have "m + 1 \<le> 2 ^ nat (bitlen m)"
    using b(2) by simp
  then have "real_of_int m + 1 \<le> 2 ^ nat (bitlen m)"
    using of_int_le_iff [where 'a = real, of "m + 1" "2 ^ nat (bitlen m)"] by simp
  with my(2) have "y \<le> 2 ^ nat (bitlen m)"
    by linarith
  then have "1 / 2 ^ nat (bitlen m) \<le> \<bar>x\<bar>"
    using x0 by (simp add: y_def field_simps)
  then have lo: "pow2 (binade x) \<le> \<bar>x\<bar>"
    using bl by (simp add: e pow2_def)
  have "(2::real) ^ nat (bitlen m - 1) \<le> of_int m"
    using b(1) by simp
  with my(1) have "2 ^ nat (bitlen m - 1) < y"
    by linarith
  then have "\<bar>x\<bar> < 1 / 2 ^ nat (bitlen m - 1)"
    using x0 by (simp add: y_def field_simps)
  moreover have "pow2 (binade x + 1) = 1 / 2 ^ nat (bitlen m - 1)"
    using bl by (cases "bitlen m = 1") (simp_all add: e pow2_def)
  ultimately have hi: "\<bar>x\<bar> < pow2 (binade x + 1)"
    by simp
  from lo hi show ?thesis ..
qed

lemma binade_bounds: "x \<noteq> 0 \<Longrightarrow> pow2 (binade x) \<le> \<bar>x\<bar> \<and> \<bar>x\<bar> < pow2 (binade x + 1)"
  using binade_large [of x] binade_small [of x] by (cases "1 \<le> \<bar>x\<bar>") simp_all

lemma pow2_pos: "0 < pow2 e"
  by (simp add: pow2_def)

lemma round_half_even_nearest: "\<bar>of_int (round_half_even y) - y\<bar> \<le> 1 / 2"
proof -
  have "of_int \<lfloor>y\<rfloor> \<le> y" "y < of_int \<lfloor>y\<rfloor> + 1"
    by linarith+
  then show ?thesis
    by (auto simp add: round_half_even_def Let_def)
qed

lemma round_double_nearest:
  assumes "round_double x = Finite r"
  shows "\<bar>r - x\<bar> \<le> pow2 (max (binade x) (- 1022) - 52) / 2"
proof (cases "x = 0")
  case True
  with assms show ?thesis
    using pow2_pos [of "max (binade x) (- 1022) - 52"] by (simp add: round_double_def)
next
  case False
  define u where "u = pow2 (max (binade x) (- 1022) - 52)"
  have u: "0 < u"
    by (simp add: u_def pow2_pos)
  from assms False have r: "r = of_int (round_half_even (x / u)) * u"
    by (simp add: round_double_def Let_def u_def split: if_splits)
  have "\<bar>of_int (round_half_even (x / u)) - x / u\<bar> \<le> 1 / 2"
    by (rule round_half_even_nearest)
  then have "\<bar>of_int (round_half_even (x / u)) - x / u\<bar> * u \<le> 1 / 2 * u"
    using u by (simp only: mult_le_cancel_right_pos)
  moreover have "\<bar>of_int (round_half_even (x / u)) - x / u\<bar> * u = \<bar>r - x\<bar>"
  proof -
    have "(of_int (round_half_even (x / u)) - x / u) * u = r - x"
      using u by (simp add: r left_diff_distrib)
    then have "\<bar>r - x\<bar> = \<bar>of_int (round_half_even (x / u)) - x / u\<bar> * \<bar>u\<bar>"
      by (simp only: abs_mult [symmetric])
    with u show ?thesis
      by simp
  qed
  ultimately show ?thesis
    by (simp add: u_def)
qed

text \<open>The equations that evaluate a rounding at a given number.\<close>

lemmas round_double_eval =
  round_double_def binade_def compute_bitlen pow2_def round_half_even_def Let_def

lemma round_double_tenth: "round_double (1 / 10) = Finite (3602879701896397 / 2 ^ 55)"
  by (simp add: round_double_eval)

lemma round_double_fifth: "round_double (2 / 10) = Finite (3602879701896397 / 2 ^ 54)"
  by (simp add: round_double_eval)

text \<open>A product beyond the largest double overflows to infinity.\<close>

lemma round_double_overflow: "round_double (2 ^ 1023 * 4000) = PosInf"
  by (simp add: round_double_eval)

lemma int_to_float_one: "int_to_float 1 = Finite 1"
  by (simp add: int_to_float_def round_double_eval)

lemma float_mul_one: "is_double r \<Longrightarrow> float_mul (int_to_float 1) (Finite r) = Finite r"
  by (simp add: int_to_float_one is_double_def)

section \<open>The classifier\<close>

text \<open>
  Claim C1. For every row and every value, \<open>get_percentile_for_comp\<close> is the ordered
  threshold ladder of the specification: the rungs p25, p50, p75, p90 are tried in this
  order with a strict comparison, an absent threshold is skipped, the first rung that
  matches gives the label and the severity (orange for low, green for normal, yellow
  for elevated, red for high), and a value that matches no rung is "above 90th
  percentile" with high severity. In particular a row with all four thresholds absent
  classifies every value as "above 90th percentile".
\<close>

theorem classify_follows_ladder:
  "get_percentile_for_comp stats v =
     (case classify_spec stats v of (label, s) \<Rightarrow> (label, severity_color s))
   \<and> (p25 stats = None \<and> p50 stats = None \<and> p75 stats = None \<and> p90 stats = None
        \<longrightarrow> get_percentile_for_comp stats v = (''above 90th percentile'', ''red''))"
  by (cases "p25 stats"; cases "p50 stats"; cases "p75 stats"; cases "p90 stats")
     (simp_all add: get_percentile_for_comp_def classify_spec_def)

text \<open>
  Claim C1, at concrete inputs: the RVU row with its three thresholds removed classifies
  0 as "above 90th percentile", and the RVU row as it stands classifies 12000 in the
  third rung, in the specification's ladder and in the program alike.
\<close>

theorem classify_follows_ladder_witness:
  "p25 ((STATS_TABLE ! 1)\<lparr>p25 := None, p50 := None, p75 := None\<rparr>) = None
   \<and> p50 ((STATS_TABLE ! 1)\<lparr>p25 := None, p50 := None, p75 := None\<rparr>) = None
   \<and> p75 ((STATS_TABLE ! 1)\<lparr>p25 := None, p50 := None, p75 := None\<rparr>) = None
   \<and> p90 ((STATS_TABLE ! 1)\<lparr>p25 := None, p50 := None, p75 := None\<rparr>) = None
   \<and> get_percentile_for_comp ((STATS_TABLE ! 1)\<lparr>p25 := None, p50 := None, p75 := None\<rparr>) (PyInt 0)
       = (''above 90th percentile'', ''red'')
   \<and> classify_spec (STATS_TABLE ! 1) (PyInt 12000)
       = (''between 50th and 75th percentile'', ElevatedSeverity)
   \<and> get_percentile_for_comp (STATS_TABLE ! 1) (PyInt 12000)
       = (''between 50th and 75th percentile'', ''yellow'')"
  using classify_follows_ladder
      [of "(STATS_TABLE ! 1)\<lparr>p25 := None, p50 := None, p75 := None\<rparr>" "PyInt 0"]
    classify_follows_ladder [of "STATS_TABLE ! 1" "PyInt 12000"]
  by (simp add: STATS_TABLE_def classify_spec_def)

text \<open>
  Claim C3, counterexample. The specification has the classifier fail on a value that is
  not finite. The program has no such check: on the total-compensation row, NaN and
  positive infinity are both classified "above 90th percentile".
\<close>

theorem classify_nonfinite_counterexample:
  "\<not> is_finite (PyFloat NaN) \<and> \<not> is_finite (PyFloat PosInf)
   \<and> get_percentile_for_comp (STATS_TABLE ! 0) (PyFloat NaN) = (''above 90th percentile'', ''red'')
   \<and> get_percentile_for_comp (STATS_TABLE ! 0) (PyFloat PosInf) = (''above 90th percentile'', ''red'')"
  by (simp add: get_percentile_for_comp_def STATS_TABLE_def)

text \<open>
  Claim C3, as amended. The classifier does not fail on a value that is not finite; it
  runs the same ladder. For every row, NaN and positive infinity are "above 90th
  percentile" (every strict comparison is false), and negative infinity is "below 25th
  percentile" when p25 is present and finite.
\<close>

theorem classify_nonfinite_buckets:
  "(v = PyFloat NaN \<or> v = PyFloat PosInf \<longrightarrow>
      get_percentile_for_comp stats v = (''above 90th percentile'', ''red''))
   \<and> (v = PyFloat NegInf \<and> p25 stats = Some (Finite t) \<longrightarrow>
      get_percentile_for_comp stats v = (''below 25th percentile'', ''orange''))"
  by (auto simp add: get_percentile_for_comp_def present_and_lt_NaN present_and_lt_PosInf)

text \<open>Claim C3 as amended, on the RVU row, for each of the three special values.\<close>

theorem classify_nonfinite_buckets_witness:
  "get_percentile_for_comp (STATS_TABLE ! 1) (PyFloat NaN) = (''above 90th percentile'', ''red'')
   \<and> get_percentile_for_comp (STATS_TABLE ! 1) (PyFloat PosInf) = (''above 90th percentile'', ''red'')
   \<and> p25 (STATS_TABLE ! 1) = Some (Finite 6270)
   \<and> get_percentile_for_comp (STATS_TABLE ! 1) (PyFloat NegInf) = (''below 25th percentile'', ''orange'')"
  using classify_nonfinite_buckets [of "PyFloat NaN" "STATS_TABLE ! 1"]
    classify_nonfinite_buckets [of "PyFloat PosInf" "STATS_TABLE ! 1"]
    classify_nonfinite_buckets [of "PyFloat NegInf" "STATS_TABLE ! 1" 6270]
  by (simp add: STATS_TABLE_def)

text \<open>
  Claim C4. For the total-compensation row of the table (p25 = 405815, p50 = 473355,
  p75 = 550500, p90 = 662930) the value 400000 is classified "below 25th percentile",
  and the value 473355, equal to p50, fails the strict test against p50 and is
  classified "between 50th and 75th percentile". Both hold for the value given as an
  int and as a float.
\<close>

theorem classify_reference_row:
  "p25 (STATS_TABLE ! 0) = Some (Finite 405815) \<and> p50 (STATS_TABLE ! 0) = Some (Finite 473355)
   \<and> p75 (STATS_TABLE ! 0) = Some (Finite 550500) \<and> p90 (STATS_TABLE ! 0) = Some (Finite 662930)
   \<and> fst (get_percentile_for_comp (STATS_TABLE ! 0) (PyInt 400000)) = ''below 25th percentile''
   \<and> fst (get_percentile_for_comp (STATS_TABLE ! 0) (PyFloat (Finite 400000))) = ''below 25th percentile''
   \<and> fst (get_percentile_for_comp (STATS_TABLE ! 0) (PyInt 473355)) = ''between 50th and 75th percentile''
   \<and> fst (get_percentile_for_comp (STATS_TABLE ! 0) (PyFloat (Finite 473355)))
        = ''between 50th and 75th percentile''"
  by (simp add: STATS_TABLE_def get_percentile_for_comp_def)

text \<open>
  Claim C10. \<open>get_percentile_for_comp\<close> is total over every row and every number, the
  special float values included: it has no failing branch and returns one of exactly
  five pairs of label and colour. The colour is red exactly for the two highest
  buckets. The result is a function of the two arguments alone.
\<close>

theorem classify_total_five_buckets:
  "get_percentile_for_comp stats v \<in>
     {(''below 25th percentile'', ''orange''), (''between 25th and 50th percentile'', ''green''),
      (''between 50th and 75th percentile'', ''yellow''),
      (''between 75th and 90th percentile'', ''red''), (''above 90th percentile'', ''red'')}
   \<and> (snd (get_percentile_for_comp stats v) = ''red'') =
       (fst (get_percentile_for_comp stats v) = ''between 75th and 90th percentile''
        \<or> fst (get_percentile_for_comp stats v) = ''above 90th percentile'')"
  by (simp add: get_percentile_for_comp_def)

section \<open>The reference table\<close>

text \<open>
  Claim C9. Every row of \<open>STATS_TABLE\<close> has its present percentiles in non-decreasing
  order, the decimals of the third row taken as the doubles they denote. The table is a
  constant: no operation of the program takes it as a state or returns a changed one.
\<close>

theorem stats_table_percentiles_ordered:
  "\<forall>row \<in> set STATS_TABLE. percentiles_ordered row"
  by (simp add: STATS_TABLE_def percentiles_ordered_def round_double_eval)

text \<open>Claim C9, row by row: the table has three rows and each one is ordered.\<close>

theorem stats_table_percentiles_ordered_witness:
  "percentiles_ordered (STATS_TABLE ! 0) \<and> percentiles_ordered (STATS_TABLE ! 1)
   \<and> percentiles_ordered (STATS_TABLE ! 2) \<and> length STATS_TABLE = 3"
proof -
  have len: "length STATS_TABLE = 3"
    by (simp add: STATS_TABLE_def)
  then have "STATS_TABLE ! 0 \<in> set STATS_TABLE" "STATS_TABLE ! 1 \<in> set STATS_TABLE"
      "STATS_TABLE ! 2 \<in> set STATS_TABLE"
    by simp_all
  with stats_table_percentiles_ordered len show ?thesis
    by blast
qed

section \<open>The compensation model\<close>

text \<open>
  Claim C2. When the hours of an hourly form add up to zero, the compensation per hour
  is not a number: \<open>compute_metric\<close> raises \<open>ZeroDivisionError\<close>. When the RVU total of
  an RVU form is zero, the compensation per RVU raises the same error; the display loop
  then ends with that error and renders no line for the metric, so no value of it
  reaches the classifier.
\<close>

theorem zero_denominator_raises:
  "(onsite_hours h + call_hours h = 0 \<longrightarrow>
      compute_metric (HourlyForm h) COMPERSATION_PER_HOUR = Inl ZeroDivisionError)
   \<and> (total_rvus r = 0 \<longrightarrow>
      compute_metric (RVUForm r) COMPERSATION_PER_RVU = Inl ZeroDivisionError
      \<and> snd (main (RVUForm r) SURGERY_TRAUMA) = Some ZeroDivisionError
      \<and> COMPERSATION_PER_RVU \<notin> fst ` set (fst (main (RVUForm r) SURGERY_TRAUMA)))"
  by (simp add: Hourly_compute_metric_def Hourly_compute_total_hours_def truediv_def
      RVU_compute_metric_def RVU_compute_total_rvus_def main_def STATS_TABLE_def
      split: prod.splits)

text \<open>
  Claim C2, at the slider minimum: both hour sliders at 0 in the hourly form, and the
  RVU slider at 0 in the RVU form.
\<close>

theorem zero_denominator_raises_witness:
  "onsite_hours (hourly_scenario\<lparr>onsite_hours := 0, call_hours := 0\<rparr>)
      + call_hours (hourly_scenario\<lparr>onsite_hours := 0, call_hours := 0\<rparr>) = 0
   \<and> compute_metric (HourlyForm (hourly_scenario\<lparr>onsite_hours := 0, call_hours := 0\<rparr>))
        COMPERSATION_PER_HOUR = Inl ZeroDivisionError
   \<and> total_rvus (rvu_scenario\<lparr>total_rvus := 0\<rparr>) = 0
   \<and> compute_metric (RVUForm (rvu_scenario\<lparr>total_rvus := 0\<rparr>)) COMPERSATION_PER_RVU
        = Inl ZeroDivisionError
   \<and> snd (main (RVUForm (rvu_scenario\<lparr>total_rvus := 0\<rparr>)) SURGERY_TRAUMA) = Some ZeroDivisionError"
  using zero_denominator_raises [of "hourly_scenario\<lparr>onsite_hours := 0, call_hours := 0\<rparr>"
      "rvu_scenario\<lparr>total_rvus := 0\<rparr>"]
  by (simp add: hourly_scenario_def rvu_scenario_def)

text \<open>
  Claim C5, counterexample. With the rate 0.1 for 3 hours and nothing else, the total
  compensation is the double 0.30000000000000004 (1351079888211149 / 2 ^ 52): the
  product of the rate and the hours is rounded. It is not the exact value of
  onsite_rate * onsite_hours + call_rate * call_hours + other_compensation, which is
  three times the double nearest to 0.1.
\<close>

theorem hourly_totals_counterexample:
  "is_double (onsite_rate hourly_tenth)
   \<and> compute_metric (HourlyForm hourly_tenth) TOTAL_COMPENSATION
        = Inr (Some (PyFloat (Finite (1351079888211149 / 2 ^ 52))))
   \<and> compute_metric (HourlyForm hourly_tenth) TOTAL_COMPENSATION
        \<noteq> Inr (Some (PyFloat (Finite
            (onsite_rate hourly_tenth * of_int (onsite_hours hourly_tenth)
             + call_rate hourly_tenth * of_int (call_hours hourly_tenth)
             + HourlyTemplateForm.other_compensation hourly_tenth))))"
  by (simp add: hourly_tenth_def Hourly_compute_metric_def Hourly_compute_compensation_def
      int_to_float_def is_double_def round_double_eval)

text \<open>
  Claim C5, as amended. For every hourly form the total hours are
  onsite_hours + call_hours, exactly, and the total compensation is
  onsite_rate * onsite_hours + call_rate * call_hours + other_compensation evaluated in
  double arithmetic: the hours converted to floats, and each product and each sum
  rounded to the nearest double. It is the exact value of the formula whenever the
  hours, the two products and the two sums are doubles.
\<close>

theorem hourly_totals:
  "compute_metric (HourlyForm f) TOTAL_HOURS = Inr (Some (PyInt (onsite_hours f + call_hours f)))
   \<and> compute_metric (HourlyForm f) TOTAL_COMPENSATION =
       Inr (Some (PyFloat
         (float_add
           (float_add
             (float_mul (Finite (onsite_rate f)) (int_to_float (onsite_hours f)))
             (float_mul (Finite (call_rate f)) (int_to_float (call_hours f))))
           (Finite (HourlyTemplateForm.other_compensation f)))))
   \<and> (is_double (of_int (onsite_hours f)) \<and> is_double (of_int (call_hours f))
       \<and> is_double (onsite_rate f * of_int (onsite_hours f))
       \<and> is_double (call_rate f * of_int (call_hours f))
       \<and> is_double (onsite_rate f * of_int (onsite_hours f)
            + call_rate f * of_int (call_hours f))
       \<and> is_double (onsite_rate f * of_int (onsite_hours f)
            + call_rate f * of_int (call_hours f) + HourlyTemplateForm.other_compensation f)
       \<longrightarrow> compute_metric (HourlyForm f) TOTAL_COMPENSATION =
             Inr (Some (PyFloat (Finite (onsite_rate f * of_int (onsite_hours f)
               + call_rate f * of_int (call_hours f)
               + HourlyTemplateForm.other_compensation f)))))"
  by (simp add: Hourly_compute_metric_def Hourly_compute_compensation_def
      Hourly_compute_total_hours_def int_to_float_def is_double_def)

text \<open>
  Claim C5 as amended, on the default form: 200 * 2080 = 416000, 50 * 500 = 25000 and
  their sum 441000 are doubles, so the total compensation is exactly 441000.
\<close>

theorem hourly_totals_witness:
  "is_double (of_int (onsite_hours hourly_scenario))
   \<and> is_double (of_int (call_hours hourly_scenario))
   \<and> is_double (onsite_rate hourly_scenario * of_int (onsite_hours hourly_scenario))
   \<and> is_double (call_rate hourly_scenario * of_int (call_hours hourly_scenario))
   \<and> is_double (onsite_rate hourly_scenario * of_int (onsite_hours hourly_scenario)
        + call_rate hourly_scenario * of_int (call_hours hourly_scenario))
   \<and> is_double (onsite_rate hourly_scenario * of_int (onsite_hours hourly_scenario)
        + call_rate hourly_scenario * of_int (call_hours hourly_scenario)
        + HourlyTemplateForm.other_compensation hourly_scenario)
   \<and> compute_metric (HourlyForm hourly_scenario) TOTAL_COMPENSATION
        = Inr (Some (PyFloat (Finite 441000)))
   \<and> compute_metric (HourlyForm hourly_scenario) TOTAL_HOURS = Inr (Some (PyInt 2580))"
proof -
  have doubles:
    "is_double (of_int (onsite_hours hourly_scenario))"
    "is_double (of_int (call_hours hourly_scenario))"
    "is_double (onsite_rate hourly_scenario * of_int (onsite_hours hourly_scenario))"
    "is_double (call_rate hourly_scenario * of_int (call_hours hourly_scenario))"
    "is_double (onsite_rate hourly_scenario * of_int (onsite_hours hourly_scenario)
        + call_rate hourly_scenario * of_int (call_hours hourly_scenario))"
    "is_double (onsite_rate hourly_scenario * of_int (onsite_hours hourly_scenario)
        + call_rate hourly_scenario * of_int (call_hours hourly_scenario)
        + HourlyTemplateForm.other_compensation hourly_scenario)"
    by (simp_all add: hourly_scenario_def is_double_def round_double_eval)
  with hourly_totals [of hourly_scenario]
  have "compute_metric (HourlyForm hourly_scenario) TOTAL_COMPENSATION =
      Inr (Some (PyFloat (Finite (onsite_rate hourly_scenario * of_int (onsite_hours hourly_scenario)
        + call_rate hourly_scenario * of_int (call_hours hourly_scenario)
        + HourlyTemplateForm.other_compensation hourly_scenario))))"
    and "compute_metric (HourlyForm hourly_scenario) TOTAL_HOURS
      = Inr (Some (PyInt (onsite_hours hourly_scenario + call_hours hourly_scenario)))"
    by blast+
  then have "compute_metric (HourlyForm hourly_scenario) TOTAL_COMPENSATION
        = Inr (Some (PyFloat (Finite 441000)))"
    and "compute_metric (HourlyForm hourly_scenario) TOTAL_HOURS = Inr (Some (PyInt 2580))"
    by (simp_all add: hourly_scenario_def)
  with doubles show ?thesis
    by blast
qed

text \<open>
  Claim C6, counterexample. At the threshold, with the base compensation 0.1 and the
  other compensation 0.2, the total compensation is the double 0.30000000000000004
  (1351079888211149 / 2 ^ 52): the sum is rounded. It is not the exact value of
  base_comp + other_compensation.
\<close>

theorem rvu_compensation_counterexample:
  "total_rvus rvu_tenth \<le> rvu_threshold rvu_tenth
   \<and> is_double (base_comp rvu_tenth)
   \<and> is_double (RVUTemplateForm.other_compensation rvu_tenth)
   \<and> compute_metric (RVUForm rvu_tenth) TOTAL_COMPENSATION
        = Inr (Some (PyFloat (Finite (1351079888211149 / 2 ^ 52))))
   \<and> compute_metric (RVUForm rvu_tenth) TOTAL_COMPENSATION
        \<noteq> Inr (Some (PyFloat (Finite
            (base_comp rvu_tenth + RVUTemplateForm.other_compensation rvu_tenth))))"
  by (simp add: rvu_tenth_def RVU_compute_metric_def RVU_compute_compensation_def
      is_double_def round_double_eval)

text \<open>
  Claim C6, as amended. For every RVU form the total compensation is piecewise in the
  RVU total, evaluated in double arithmetic with each product and sum rounded to the
  nearest double: up to and including the threshold it is base_comp + other_compensation;
  above it, base_comp + (total_rvus - threshold) * rvu_rate + other_compensation, the int
  difference converted to a float; one RVU above the threshold this is
  base_comp + rvu_rate + other_compensation. In each case it is the exact value of the
  formula whenever the difference, the product and the sums are doubles.
\<close>

theorem rvu_compensation_piecewise:
  "(total_rvus f \<le> rvu_threshold f \<longrightarrow>
      compute_metric (RVUForm f) TOTAL_COMPENSATION =
        Inr (Some (PyFloat
          (float_add (Finite (base_comp f)) (Finite (RVUTemplateForm.other_compensation f))))))
   \<and> (total_rvus f > rvu_threshold f \<longrightarrow>
      compute_metric (RVUForm f) TOTAL_COMPENSATION =
        Inr (Some (PyFloat
          (float_add
            (float_add (Finite (base_comp f))
              (float_mul (int_to_float (total_rvus f - rvu_threshold f)) (Finite (rvu_rate f))))
            (Finite (RVUTemplateForm.other_compensation f))))))
   \<and> (total_rvus f = rvu_threshold f + 1 \<and> is_double (rvu_rate f) \<longrightarrow>
      compute_metric (RVUForm f) TOTAL_COMPENSATION =
        Inr (Some (PyFloat
          (float_add (float_add (Finite (base_comp f)) (Finite (rvu_rate f)))
            (Finite (RVUTemplateForm.other_compensation f))))))
   \<and> (total_rvus f \<le> rvu_threshold f
       \<and> is_double (base_comp f + RVUTemplateForm.other_compensation f) \<longrightarrow>
      compute_metric (RVUForm f) TOTAL_COMPENSATION =
        Inr (Some (PyFloat (Finite (base_comp f + RVUTemplateForm.other_compensation f)))))
   \<and> (total_rvus f > rvu_threshold f
       \<and> is_double (of_int (total_rvus f - rvu_threshold f))
       \<and> is_double (of_int (total_rvus f - rvu_threshold f) * rvu_rate f)
       \<and> is_double (base_comp f + of_int (total_rvus f - rvu_threshold f) * rvu_rate f)
       \<and> is_double (base_comp f + of_int (total_rvus f - rvu_threshold f) * rvu_rate f
            + RVUTemplateForm.other_compensation f) \<longrightarrow>
      compute_metric (RVUForm f) TOTAL_COMPENSATION =
        Inr (Some (PyFloat (Finite (base_comp f
          + of_int (total_rvus f - rvu_threshold f) * rvu_rate f
          + RVUTemplateForm.other_compensation f)))))"
proof -
  have low: "total_rvus f \<le> rvu_threshold f \<Longrightarrow>
      RVU_compute_compensation f =
        float_add (Finite (base_comp f)) (Finite (RVUTemplateForm.other_compensation f))"
    by (simp add: RVU_compute_compensation_def)
  have high: "total_rvus f > rvu_threshold f \<Longrightarrow>
      RVU_compute_compensation f =
        float_add
          (float_add (Finite (base_comp f))
            (float_mul (int_to_float (total_rvus f - rvu_threshold f)) (Finite (rvu_rate f))))
          (Finite (RVUTemplateForm.other_compensation f))"
    by (simp add: RVU_compute_compensation_def Let_def)
  have one: "total_rvus f = rvu_threshold f + 1 \<Longrightarrow> is_double (rvu_rate f) \<Longrightarrow>
      RVU_compute_compensation f =
        float_add (float_add (Finite (base_comp f)) (Finite (rvu_rate f)))
          (Finite (RVUTemplateForm.other_compensation f))"
    using high by (simp add: float_mul_one)
  have total: "compute_metric (RVUForm f) TOTAL_COMPENSATION
      = Inr (Some (PyFloat (RVU_compute_compensation f)))"
    by (simp add: RVU_compute_metric_def)
  have exact_low: "total_rvus f \<le> rvu_threshold f \<Longrightarrow>
      is_double (base_comp f + RVUTemplateForm.other_compensation f) \<Longrightarrow>
      RVU_compute_compensation f
        = Finite (base_comp f + RVUTemplateForm.other_compensation f)"
    by (simp add: low is_double_def)
  have exact_high: "total_rvus f > rvu_threshold f \<Longrightarrow>
      is_double (of_int (total_rvus f - rvu_threshold f)) \<Longrightarrow>
      is_double (of_int (total_rvus f - rvu_threshold f) * rvu_rate f) \<Longrightarrow>
      is_double (base_comp f + of_int (total_rvus f - rvu_threshold f) * rvu_rate f) \<Longrightarrow>
      is_double (base_comp f + of_int (total_rvus f - rvu_threshold f) * rvu_rate f
        + RVUTemplateForm.other_compensation f) \<Longrightarrow>
      RVU_compute_compensation f
        = Finite (base_comp f + of_int (total_rvus f - rvu_threshold f) * rvu_rate f
            + RVUTemplateForm.other_compensation f)"
    by (simp add: high is_double_def int_to_float_def)
  show ?thesis
    unfolding total
    using low high one exact_low exact_high by blast
qed

text \<open>
  Claim C6 as amended, on the default form (base 300000, threshold 5000, rate 50) with
  the RVU total at the threshold, at 7000 and one above the threshold: every product
  and sum is a double, and the total compensation is 300000, 400000 and 300050.
\<close>

theorem rvu_compensation_piecewise_witness:
  "total_rvus (rvu_scenario\<lparr>total_rvus := 5000\<rparr>) \<le> rvu_threshold (rvu_scenario\<lparr>total_rvus := 5000\<rparr>)
   \<and> is_double (base_comp (rvu_scenario\<lparr>total_rvus := 5000\<rparr>)
        + RVUTemplateForm.other_compensation (rvu_scenario\<lparr>total_rvus := 5000\<rparr>))
   \<and> compute_metric (RVUForm (rvu_scenario\<lparr>total_rvus := 5000\<rparr>)) TOTAL_COMPENSATION
        = Inr (Some (PyFloat (Finite 300000)))
   \<and> total_rvus rvu_scenario > rvu_threshold rvu_scenario
   \<and> is_double (of_int (total_rvus rvu_scenario - rvu_threshold rvu_scenario))
   \<and> is_double (of_int (total_rvus rvu_scenario - rvu_threshold rvu_scenario)
        * rvu_rate rvu_scenario)
   \<and> is_double (base_comp rvu_scenario
        + of_int (total_rvus rvu_scenario - rvu_threshold rvu_scenario) * rvu_rate rvu_scenario)
   \<and> is_double (base_comp rvu_scenario
        + of_int (total_rvus rvu_scenario - rvu_threshold rvu_scenario) * rvu_rate rvu_scenario
        + RVUTemplateForm.other_compensation rvu_scenario)
   \<and> compute_metric (RVUForm rvu_scenario) TOTAL_COMPENSATION
        = Inr (Some (PyFloat (Finite 400000)))
   \<and> total_rvus (rvu_scenario\<lparr>total_rvus := 5001\<rparr>)
        = rvu_threshold (rvu_scenario\<lparr>total_rvus := 5001\<rparr>) + 1
   \<and> is_double (rvu_rate (rvu_scenario\<lparr>total_rvus := 5001\<rparr>))
   \<and> compute_metric (RVUForm (rvu_scenario\<lparr>total_rvus := 5001\<rparr>)) TOTAL_COMPENSATION
        = Inr (Some (PyFloat (Finite 300050)))"
  using rvu_compensation_piecewise [of "rvu_scenario\<lparr>total_rvus := 5000\<rparr>"]
    rvu_compensation_piecewise [of rvu_scenario]
    rvu_compensation_piecewise [of "rvu_scenario\<lparr>total_rvus := 5001\<rparr>"]
  by (simp add: rvu_scenario_def is_double_def int_to_float_def round_double_eval)

text \<open>
  Claim C7, counterexample. On the hourly scenario (onsite_rate 200, onsite_hours 2080,
  call_rate 50, call_hours 500, other_compensation 0) the total compensation is not
  466000, as an int or as a float, and the compensation per hour, the double nearest to
  441000 / 2580, does not round to 180.62.
\<close>

theorem hourly_scenario_counterexample:
  "compute_metric (HourlyForm hourly_scenario) TOTAL_COMPENSATION
     \<noteq> Inr (Some (PyFloat (Finite 466000)))
   \<and> compute_metric (HourlyForm hourly_scenario) TOTAL_COMPENSATION
     \<noteq> Inr (Some (PyInt 466000))
   \<and> compute_metric (HourlyForm hourly_scenario) COMPERSATION_PER_HOUR
     = Inr (Some (PyFloat (Finite (6014072903556167 / 2 ^ 45))))
   \<and> \<not> approx_2dp (6014072903556167 / 2 ^ 45) (18062 / 100)"
  by (simp add: hourly_scenario_def Hourly_compute_metric_def Hourly_compute_compensation_def
      Hourly_compute_total_hours_def truediv_def int_to_float_def approx_2dp_def
      round_double_eval)

text \<open>
  Claim C7, as amended. On the hourly scenario the total compensation is
  200 * 2080 + 50 * 500 + 0 = 441000, the total hours are 2580, and the compensation
  per hour is the double nearest to 441000 / 2580, 6014072903556167 / 2 ^ 45
  (170.93023255813952), which rounds to 170.93.
\<close>

theorem hourly_scenario_values:
  "onsite_rate hourly_scenario = 200 \<and> onsite_hours hourly_scenario = 2080
   \<and> call_rate hourly_scenario = 50 \<and> call_hours hourly_scenario = 500
   \<and> HourlyTemplateForm.other_compensation hourly_scenario = 0
   \<and> compute_metric (HourlyForm hourly_scenario) TOTAL_COMPENSATION
        = Inr (Some (PyFloat (Finite 441000)))
   \<and> compute_metric (HourlyForm hourly_scenario) TOTAL_HOURS = Inr (Some (PyInt 2580))
   \<and> compute_metric (HourlyForm hourly_scenario) COMPERSATION_PER_HOUR
        = Inr (Some (PyFloat (Finite (6014072903556167 / 2 ^ 45))))
   \<and> round_double (441000 / 2580) = Finite (6014072903556167 / 2 ^ 45)
   \<and> approx_2dp (6014072903556167 / 2 ^ 45) (17093 / 100)"
  by (simp add: hourly_scenario_def Hourly_compute_metric_def Hourly_compute_compensation_def
      Hourly_compute_total_hours_def truediv_def int_to_float_def approx_2dp_def
      round_double_eval)

text \<open>
  Claim C8. A metric that a form cannot produce is answered with \<open>None\<close>: the hourly
  form for the RVU total and the compensation per RVU, the RVU form for the total hours
  and the compensation per hour, and each form for no other metric. \<open>None\<close> is neither
  the error nor a zero.
\<close>

theorem not_applicable_is_absent:
  "compute_metric (HourlyForm h) TOTAL_RVUS = Inr None
   \<and> compute_metric (HourlyForm h) COMPERSATION_PER_RVU = Inr None
   \<and> compute_metric (RVUForm r) TOTAL_HOURS = Inr None
   \<and> compute_metric (RVUForm r) COMPERSATION_PER_HOUR = Inr None
   \<and> (compute_metric (HourlyForm h) m = Inr None) = (m = TOTAL_RVUS \<or> m = COMPERSATION_PER_RVU)
   \<and> (compute_metric (RVUForm r) m = Inr None) = (m = TOTAL_HOURS \<or> m = COMPERSATION_PER_HOUR)
   \<and> (Inr None :: py_error + pynum option) \<noteq> Inl ZeroDivisionError
   \<and> (Inr None :: py_error + pynum option) \<noteq> Inr (Some (PyInt 0))
   \<and> (Inr None :: py_error + pynum option) \<noteq> Inr (Some (PyFloat (Finite 0)))"
  by (cases m) (simp_all add: Hourly_compute_metric_def RVU_compute_metric_def truediv_def)

end
